theory Spec2Isabelle
  imports Main
begin

section \<open>The ChatBox component of the AI Research Assistant front end\<close>

text \<open>
  The component \<open>ChatBox\<close> keeps its whole state in React state cells and changes it
  in event handlers. The model below has one record field per state cell and one function
  per handler. A handler that awaits the network takes the outcome of the request as an
  argument and returns, beside the new state, the list of requests it issued.

  A handler reads some cells through the closure of the render in which it was created
  (\<open>selectedDocIds\<close>, \<open>useAgents\<close>, \<open>sessionId\<close>, \<open>input\<close>) and writes others through
  setters. Where the two can differ the model names both: the argument \<open>c\<close> is the state
  the closure captured and \<open>s\<close> is the state the setters act on. The functions named
  after the handlers are the runs in which nothing else happens while a request is awaited,
  so there the captured state is the state at the moment of the call. The functions for
  the phases of a handler (\<open>_begin\<close>, \<open>_posted\<close>, \<open>_refreshed\<close>, \<open>_settle\<close>) take
  the captured state and the state of the moment apart, so that other events can come
  between the phases.
\<close>

subsection \<open>Data\<close>

datatype role = User | Assistant

record message =
  role :: role
  content :: string

record document =
  doc_id :: string
  original_filename :: string
  file_type :: string
  upload_date :: string
  chunks :: int

text \<open>
  The upload banner is a string built from a template with a check mark and the number of
  chunks; only which of its four shapes it has is kept.
\<close>

datatype upload_status =
    StatusNone
  | StatusUploading
  | StatusUploaded int
  | StatusFailed

record chat_state =
  messages :: "message list"
  input :: string
  uploading :: bool
  uploadStatus :: upload_status
  documents :: "document list"
  selectedDocIds :: "string list"
  showMultiSelect :: bool
  useAgents :: bool
  workflowLog :: "string list"
  isProcessing :: bool
  currentAgent :: string
  sessionId :: string

text \<open>The state of the first render: the arguments of the \<open>useState\<close> calls.\<close>

definition initial_state :: chat_state where
  "initial_state =
     \<lparr>messages = [], input = [], uploading = False, uploadStatus = StatusNone,
      documents = [], selectedDocIds = [], showMultiSelect = False, useAgents = True,
      workflowLog = [], isProcessing = False, currentAgent = [], sessionId = []\<rparr>"

subsection \<open>The backend, as the handlers see it\<close>

text \<open>
  \<open>GET /documents\<close>: the request throws, or it returns a body in which \<open>multi_docs\<close> may be
  missing (the handler then takes the empty list).
\<close>

datatype get_result = GetFailed | GetOk "document list option"

text \<open>
  \<open>POST /upload-v2\<close>: the request throws, or it returns \<open>filename\<close> (possibly missing) and
  \<open>chunks\<close>.
\<close>

datatype upload_file = UploadFile string

datatype upload_result = UploadFailed | UploadOk "string option" int

text \<open>
  \<open>POST /ask\<close> and \<open>POST /ask-v2\<close>: the request throws, with \<open>err.response.data.detail\<close>
  present or not, or it returns a body with \<open>answer\<close> and the optional fields
  \<open>workflow_log\<close> and \<open>session_id\<close>.
\<close>

record ask_data =
  answer :: string
  workflow_log :: "string list option"
  session_id :: "string option"

datatype ask_result = AskFailed "string option" | AskOk ask_data

text \<open>The two payload shapes; \<open>None\<close> is \<open>null\<close> (or an omitted \<open>session_id\<close>).\<close>

datatype payload =
    AgentPayload string nat "string list option" "string option"
  | SimplePayload string nat "string option"

datatype request =
    GetDocuments
  | PostUpload upload_file
  | PostAsk string payload

subsection \<open>Strings\<close>

text \<open>
  \<open>String.prototype.trim\<close> removes white space and line terminators from both ends.
  Characters are the code points below 256, where these are tab, line feed, vertical tab,
  form feed, carriage return, space and the no-break space.
\<close>

definition isWhiteSpace :: "char \<Rightarrow> bool" where
  "isWhiteSpace ch = (of_char ch \<in> {9, 10, 11, 12, 13, 32, 160 :: nat})"

definition trim :: "string \<Rightarrow> string" where
  "trim t = rev (dropWhile isWhiteSpace (rev (dropWhile isWhiteSpace t)))"

text \<open>A string is truthy when it is not empty; a missing field is falsy.\<close>

fun truthy :: "string option \<Rightarrow> bool" where
  "truthy None = False"
| "truthy (Some t) = (t \<noteq> [])"

subsection \<open>Document Registry: \<open>fetchDocuments\<close> and the selection handlers\<close>

text \<open>
  \<open>fetchDocuments\<close>: on success the list is replaced, and all documents are selected when
  the list is not empty and the captured selection is empty. On failure the error is
  logged and nothing changes.
\<close>

definition fetchDocuments_settle :: "chat_state \<Rightarrow> get_result \<Rightarrow> chat_state \<Rightarrow> chat_state" where
  "fetchDocuments_settle c r s =
     (case r of
        GetFailed \<Rightarrow> s
      | GetOk body \<Rightarrow>
          (let multiDocs = (case body of None \<Rightarrow> [] | Some ds \<Rightarrow> ds);
               s1 = s\<lparr>documents := multiDocs\<rparr>
           in if length multiDocs > 0 \<and> length (selectedDocIds c) = 0
              then s1\<lparr>selectedDocIds := map doc_id multiDocs\<rparr>
              else s1))"

definition fetchDocuments :: "chat_state \<Rightarrow> get_result \<Rightarrow> chat_state \<times> request list" where
  "fetchDocuments s r = (fetchDocuments_settle s r s, [GetDocuments])"

definition toggleDocSelection :: "string \<Rightarrow> chat_state \<Rightarrow> chat_state" where
  "toggleDocSelection docId s =
     s\<lparr>selectedDocIds :=
         (if docId \<in> set (selectedDocIds s)
          then filter (\<lambda>i. i \<noteq> docId) (selectedDocIds s)
          else selectedDocIds s @ [docId])\<rparr>"

definition selectAllDocs :: "chat_state \<Rightarrow> chat_state" where
  "selectAllDocs s = s\<lparr>selectedDocIds := map doc_id (documents s)\<rparr>"

definition deselectAllDocs :: "chat_state \<Rightarrow> chat_state" where
  "deselectAllDocs s = s\<lparr>selectedDocIds := []\<rparr>"

text \<open>The \<open>onChange\<close> handler of the drop-down of the simple selection view.\<close>

definition dropdownChange :: "string \<Rightarrow> chat_state \<Rightarrow> chat_state" where
  "dropdownChange v s =
     (if v = ''all'' then selectAllDocs s
      else if v \<noteq> ''custom'' then s\<lparr>selectedDocIds := [v]\<rparr>
      else s)"

subsection \<open>Session Tracker\<close>

definition startNewConversation :: "chat_state \<Rightarrow> chat_state" where
  "startNewConversation s = s\<lparr>messages := [], sessionId := [], workflowLog := [], input := []\<rparr>"

text \<open>
  The capture of the session id in \<open>sendMessage\<close>: the id of the response is stored when it
  is truthy and the captured \<open>sessionId\<close> is empty.
\<close>

definition capture :: "chat_state \<Rightarrow> string option \<Rightarrow> chat_state \<Rightarrow> chat_state" where
  "capture c tok s =
     (case tok of
        None \<Rightarrow> s
      | Some t \<Rightarrow> if t \<noteq> [] \<and> sessionId c = [] then s\<lparr>sessionId := t\<rparr> else s)"

subsection \<open>Upload Coordinator: \<open>handleFileUpload\<close>\<close>

definition handleFileUpload ::
  "chat_state \<Rightarrow> upload_file option \<Rightarrow> upload_result \<Rightarrow> get_result \<Rightarrow> chat_state \<times> request list" where
  "handleFileUpload s picked ur gr =
     (case picked of
        None \<Rightarrow> (s, [])
      | Some f \<Rightarrow>
          (let s1 = s\<lparr>uploading := True, uploadStatus := StatusUploading\<rparr>
           in case ur of
                UploadFailed \<Rightarrow>
                  (s1\<lparr>uploadStatus := StatusFailed, uploading := False\<rparr>, [PostUpload f])
              | UploadOk filename n \<Rightarrow>
                  (let s2 = s1\<lparr>uploadStatus := StatusUploaded n\<rparr>;
                       s3 = fetchDocuments_settle s gr s2;
                       s4 = (if truthy filename
                             then s3\<lparr>selectedDocIds := selectedDocIds s3 @ [the filename]\<rparr>
                             else s3)
                   in (s4\<lparr>uploading := False\<rparr>, [PostUpload f, GetDocuments]))))"

text \<open>
  The phases of \<open>handleFileUpload\<close>: the two setters before the upload request; what
  follows when that request has settled (the banner, or the \<open>catch\<close> and \<open>finally\<close>
  blocks); and what follows when the request for the document list has settled (the body
  of \<open>fetchDocuments\<close> with the selection the handler captured, the new id appended to
  the selection of the moment, the \<open>finally\<close> block).
\<close>

definition handleFileUpload_begin :: "chat_state \<Rightarrow> chat_state" where
  "handleFileUpload_begin s = s\<lparr>uploading := True, uploadStatus := StatusUploading\<rparr>"

definition handleFileUpload_posted :: "upload_result \<Rightarrow> chat_state \<Rightarrow> chat_state" where
  "handleFileUpload_posted ur s =
     (case ur of
        UploadFailed \<Rightarrow> s\<lparr>uploadStatus := StatusFailed, uploading := False\<rparr>
      | UploadOk filename n \<Rightarrow> s\<lparr>uploadStatus := StatusUploaded n\<rparr>)"

definition handleFileUpload_refreshed ::
  "chat_state \<Rightarrow> string option \<Rightarrow> get_result \<Rightarrow> chat_state \<Rightarrow> chat_state" where
  "handleFileUpload_refreshed c filename gr s =
     (let s3 = fetchDocuments_settle c gr s;
          s4 = (if truthy filename
                then s3\<lparr>selectedDocIds := selectedDocIds s3 @ [the filename]\<rparr>
                else s3)
      in s4\<lparr>uploading := False\<rparr>)"

text \<open>The timer started by a successful upload clears the banner three seconds later.\<close>

definition uploadStatusTimeout :: "chat_state \<Rightarrow> chat_state" where
  "uploadStatusTimeout s = s\<lparr>uploadStatus := StatusNone\<rparr>"

subsection \<open>Query Dispatcher: \<open>sendMessage\<close>\<close>

definition userMessage :: "string \<Rightarrow> message" where
  "userMessage t = \<lparr>role = User, content = t\<rparr>"

definition assistantMessage :: "string \<Rightarrow> message" where
  "assistantMessage t = \<lparr>role = Assistant, content = t\<rparr>"

text \<open>The endpoint and the payload, from the captured mode, selection and session id.\<close>

definition buildRequest :: "chat_state \<Rightarrow> string \<Rightarrow> request" where
  "buildRequest c currentQuery =
     (if useAgents c
      then PostAsk ''http://localhost:8000/ask-v2''
             (AgentPayload currentQuery 5
                (if length (selectedDocIds c) > 0 then Some (selectedDocIds c) else None)
                (if sessionId c \<noteq> [] then Some (sessionId c) else None))
      else PostAsk ''http://localhost:8000/ask''
             (SimplePayload currentQuery 5
                (if length (selectedDocIds c) = 1 then Some (selectedDocIds c ! 0) else None)))"

text \<open>
  The state while the request is awaited: the five setters before the \<open>try\<close> block, then
  the progress label of the agentic mode.
\<close>

definition sendMessage_begin :: "chat_state \<Rightarrow> chat_state" where
  "sendMessage_begin s =
     s\<lparr>input := [],
       messages := messages s @ [userMessage (input s)],
       isProcessing := True,
       workflowLog := [],
       currentAgent := (if useAgents s then ''Initializing multi-agent workflow...''
                        else ''Processing your query...'')\<rparr>"

definition sendMessage_pending :: "chat_state \<Rightarrow> chat_state" where
  "sendMessage_pending s =
     (let s1 = sendMessage_begin s
      in if useAgents s
         then s1\<lparr>currentAgent := ''[1/4] Research Agent: Searching database...''\<rparr>
         else s1)"

definition errorMsg :: "string option \<Rightarrow> string" where
  "errorMsg detail = (if truthy detail then the detail else ''Error contacting backend.'')"

text \<open>
  What happens once the request has settled: the success path, the \<open>catch\<close> block, and the
  \<open>finally\<close> block after either.
\<close>

definition sendMessage_settle :: "chat_state \<Rightarrow> ask_result \<Rightarrow> chat_state \<Rightarrow> chat_state" where
  "sendMessage_settle c r s =
     (let s' =
        (case r of
           AskOk d \<Rightarrow>
             (let s1 = (case workflow_log d of
                          None \<Rightarrow> s
                        | Some lg \<Rightarrow> if useAgents c then s\<lparr>workflowLog := lg\<rparr> else s);
                  s2 = capture c (session_id d) s1;
                  s3 = s2\<lparr>messages := messages s2 @ [assistantMessage (answer d)]\<rparr>
              in s3\<lparr>currentAgent := []\<rparr>)
         | AskFailed detail \<Rightarrow>
             s\<lparr>messages := messages s @ [assistantMessage (errorMsg detail)],
               currentAgent := []\<rparr>)
      in s'\<lparr>isProcessing := False\<rparr>)"

definition sendMessage :: "chat_state \<Rightarrow> ask_result \<Rightarrow> chat_state \<times> request list" where
  "sendMessage s r =
     (if trim (input s) = [] \<or> isProcessing s then (s, [])
      else (sendMessage_settle s r (sendMessage_pending s), [buildRequest s (input s)]))"

subsection \<open>Events\<close>

text \<open>
  Everything that changes the state: the mount effect, the handlers above, the three
  inline setters of the view, and the banner timer.
\<close>

datatype event =
    Mount get_result
  | Toggle string
  | SelectAll
  | DeselectAll
  | DropdownChange string
  | NewConversation
  | FileUpload "upload_file option" upload_result get_result
  | Send ask_result
  | SetInput string
  | SetUseAgents bool
  | SetShowMultiSelect bool
  | UploadStatusTimeout

fun step :: "chat_state \<Rightarrow> event \<Rightarrow> chat_state" where
  "step s (Mount r) = fst (fetchDocuments s r)"
| "step s (Toggle docId) = toggleDocSelection docId s"
| "step s SelectAll = selectAllDocs s"
| "step s DeselectAll = deselectAllDocs s"
| "step s (DropdownChange v) = dropdownChange v s"
| "step s NewConversation = startNewConversation s"
| "step s (FileUpload picked ur gr) = fst (handleFileUpload s picked ur gr)"
| "step s (Send r) = fst (sendMessage s r)"
| "step s (SetInput t) = s\<lparr>input := t\<rparr>"
| "step s (SetUseAgents b) = s\<lparr>useAgents := b\<rparr>"
| "step s (SetShowMultiSelect b) = s\<lparr>showMultiSelect := b\<rparr>"
| "step s UploadStatusTimeout = uploadStatusTimeout s"

fun run :: "chat_state \<Rightarrow> event list \<Rightarrow> chat_state" where
  "run s [] = s"
| "run s (e # es) = run (step s e) es"

text \<open>The ids of the documents in the registry, and the invariant of the selection.\<close>

definition registry_ids :: "chat_state \<Rightarrow> string set" where
  "registry_ids s = set (map doc_id (documents s))"

definition selection_valid :: "chat_state \<Rightarrow> bool" where
  "selection_valid s = (set (selectedDocIds s) \<subseteq> registry_ids s)"

subsection \<open>Concrete scenarios\<close>

text \<open>Two documents, and states and responses built from them, for the examples below.\<close>

definition doc_a :: document where
  "doc_a = \<lparr>doc_id = ''d1'', original_filename = ''a.pdf'', file_type = ''pdf'',
            upload_date = ''2025-01-01'', chunks = 3\<rparr>"

definition doc_b :: document where
  "doc_b = \<lparr>doc_id = ''d2'', original_filename = ''b.txt'', file_type = ''txt'',
            upload_date = ''2025-01-02'', chunks = 7\<rparr>"

definition doc_c :: document where
  "doc_c = \<lparr>doc_id = ''d3'', original_filename = ''c.md'', file_type = ''md'',
            upload_date = ''2025-01-03'', chunks = 4\<rparr>"

text \<open>Both documents listed and selected, a question typed, agentic mode, no session yet.\<close>

definition ready_state :: chat_state where
  "ready_state =
     initial_state\<lparr>input := ''what is new?'', documents := [doc_a, doc_b],
                   selectedDocIds := [''d1'', ''d2'']\<rparr>"

text \<open>The same in simple mode, with only the first document selected.\<close>

definition simple_state :: chat_state where
  "simple_state = ready_state\<lparr>useAgents := False, selectedDocIds := [''d1'']\<rparr>"

text \<open>The first document selected, as left over from an earlier list.\<close>

definition stale_state :: chat_state where
  "stale_state = initial_state\<lparr>documents := [doc_a, doc_b], selectedDocIds := [''d1'']\<rparr>"



text \<open>
  Two documents listed and none selected, with the check boxes shown; and the state in which
  the list requested by an upload started there arrives, after the first check box was
  ticked while the upload request was pending.
\<close>

definition emptied_state :: chat_state where
  "emptied_state = initial_state\<lparr>documents := [doc_a, doc_b], showMultiSelect := True\<rparr>"

definition ticked_state :: chat_state where
  "ticked_state =
     handleFileUpload_posted (UploadOk (Some ''d3'') 4)
       (toggleDocSelection ''d1'' (handleFileUpload_begin emptied_state))"

text \<open>A state whose log still shows the steps of an earlier query.\<close>

definition logged_state :: chat_state where
  "logged_state = ready_state\<lparr>workflowLog := [''Research Agent: 2 chunks'']\<rparr>"

definition reply_a :: ask_data where
  "reply_a = \<lparr>answer = ''Nothing.'', workflow_log = Some [''Research Agent: 5 chunks''],
              session_id = Some ''sess-A''\<rparr>"

definition reply_b :: ask_data where
  "reply_b = \<lparr>answer = ''Still nothing.'', workflow_log = None, session_id = Some ''sess-B''\<rparr>"

section \<open>Properties\<close>

subsection \<open>Shared facts\<close>

lemmas handler_defs =
  sendMessage_def sendMessage_settle_def sendMessage_pending_def sendMessage_begin_def
  buildRequest_def capture_def errorMsg_def userMessage_def assistantMessage_def

lemmas registry_defs =
  fetchDocuments_def fetchDocuments_settle_def toggleDocSelection_def selectAllDocs_def
  deselectAllDocs_def dropdownChange_def handleFileUpload_def uploadStatusTimeout_def

lemmas upload_phase_defs =
  handleFileUpload_begin_def handleFileUpload_posted_def handleFileUpload_refreshed_def

text \<open>The handler is its phases with nothing between them.\<close>

lemma handleFileUpload_phases:
  "fst (handleFileUpload s (Some fl) ur gr) =
     (case ur of
        UploadFailed \<Rightarrow> handleFileUpload_posted ur (handleFileUpload_begin s)
      | UploadOk filename n \<Rightarrow>
          handleFileUpload_refreshed s filename gr
            (handleFileUpload_posted ur (handleFileUpload_begin s)))"
  by (simp add: handleFileUpload_def upload_phase_defs Let_def split: upload_result.splits)

lemma trim_question: "trim ''what is new?'' \<noteq> []"
  by (simp add: trim_def isWhiteSpace_def)

lemma ready_accepts: "trim (input ready_state) \<noteq> [] \<and> \<not> isProcessing ready_state"
  by (simp add: ready_state_def initial_state_def trim_question)

subsection \<open>Query Dispatcher\<close>




text \<open>
  C4. When the request of an accepted send fails, the transcript grows by the user message
  and exactly one message of the assistant. Its content is the \<open>detail\<close> of the error
  body when that is a non-empty string, and \<open>Error contacting backend.\<close> when \<open>detail\<close>
  is missing or empty, so it is never the empty string. The handler ends in a state (the
  \<open>catch\<close> block recovers, the \<open>finally\<close> block clears the processing flag), and the
  session id, the selection and the document list are as before.
\<close>

theorem sendMessage_failure:
  assumes "trim (input s) \<noteq> []" and "\<not> isProcessing s"
  shows "messages (fst (sendMessage s (AskFailed detail)))
           = messages s @
             [\<lparr>role = User, content = input s\<rparr>,
              \<lparr>role = Assistant,
               content = (case detail of
                            None \<Rightarrow> ''Error contacting backend.''
                          | Some d \<Rightarrow> if d = [] then ''Error contacting backend.'' else d)\<rparr>]
       \<and> role (last (messages (fst (sendMessage s (AskFailed detail))))) = Assistant
       \<and> content (last (messages (fst (sendMessage s (AskFailed detail))))) \<noteq> []
       \<and> sessionId (fst (sendMessage s (AskFailed detail))) = sessionId s
       \<and> selectedDocIds (fst (sendMessage s (AskFailed detail))) = selectedDocIds s
       \<and> documents (fst (sendMessage s (AskFailed detail))) = documents s
       \<and> \<not> isProcessing (fst (sendMessage s (AskFailed detail)))"
  using assms by (auto simp: handler_defs Let_def split: option.splits)

theorem sendMessage_failure_witness:
  "trim (input ready_state) \<noteq> [] \<and> \<not> isProcessing ready_state
   \<and> messages (fst (sendMessage ready_state (AskFailed None)))
       = [\<lparr>role = User, content = ''what is new?''\<rparr>,
          \<lparr>role = Assistant, content = ''Error contacting backend.''\<rparr>]
   \<and> messages (fst (sendMessage ready_state (AskFailed (Some ''Index not found''))))
       = [\<lparr>role = User, content = ''what is new?''\<rparr>,
          \<lparr>role = Assistant, content = ''Index not found''\<rparr>]
   \<and> messages (fst (sendMessage ready_state (AskFailed (Some []))))
       = [\<lparr>role = User, content = ''what is new?''\<rparr>,
          \<lparr>role = Assistant, content = ''Error contacting backend.''\<rparr>]"
proof -
  have a: "trim (input ready_state) \<noteq> []" and b: "\<not> isProcessing ready_state"
    using ready_accepts by simp_all
  have c: "input ready_state = ''what is new?''" "messages ready_state = []"
    by (simp_all add: ready_state_def initial_state_def)
  from sendMessage_failure [OF a b, of None]
       sendMessage_failure [OF a b, of "Some ''Index not found''"]
       sendMessage_failure [OF a b, of "Some []"] a b c
  show ?thesis by simp
qed

text \<open>
  C5. A send while the processing flag is set, or with a text that is empty after trimming,
  returns the state it was given and issues no request. In particular the transcript gets
  no second user message.
\<close>

theorem sendMessage_rejected:
  "trim (input s) = [] \<or> isProcessing s \<Longrightarrow> sendMessage s r = (s, [])"
  by (auto simp: sendMessage_def)

theorem sendMessage_rejected_witness:
  "(trim (input (ready_state\<lparr>isProcessing := True\<rparr>)) = []
      \<or> isProcessing (ready_state\<lparr>isProcessing := True\<rparr>))
   \<and> sendMessage (ready_state\<lparr>isProcessing := True\<rparr>) (AskOk reply_a)
       = (ready_state\<lparr>isProcessing := True\<rparr>, [])
   \<and> (trim (input (ready_state\<lparr>input := ''  ''\<rparr>)) = []
      \<or> isProcessing (ready_state\<lparr>input := ''  ''\<rparr>))
   \<and> sendMessage (ready_state\<lparr>input := ''  ''\<rparr>) (AskOk reply_a)
       = (ready_state\<lparr>input := ''  ''\<rparr>, [])"
  using sendMessage_rejected [of "ready_state\<lparr>isProcessing := True\<rparr>" "AskOk reply_a"]
        sendMessage_rejected [of "ready_state\<lparr>input := ''  ''\<rparr>" "AskOk reply_a"]
  by (simp add: trim_def isWhiteSpace_def)

text \<open>
  C6 as stated does not hold: in simple mode a response that carries a workflow log leaves
  the log empty, because the handler takes the log only when \<open>useAgents\<close> is set.
\<close>

theorem workflow_log_replaced_counterexample:
  "trim (input simple_state) \<noteq> [] \<and> \<not> isProcessing simple_state
   \<and> workflow_log reply_a = Some [''Research Agent: 5 chunks'']
   \<and> workflowLog (fst (sendMessage simple_state (AskOk reply_a))) = []
   \<and> workflowLog (fst (sendMessage simple_state (AskOk reply_a))) \<noteq> [''Research Agent: 5 chunks'']"
  by (simp add: handler_defs simple_state_def ready_state_def initial_state_def reply_a_def
        trim_question)

text \<open>
  C6, amended. A send that passes its guard empties the workflow log before the request is
  issued. When the request succeeds in agentic mode and the response carries a workflow
  log, the log becomes exactly that list (the old entries are gone, nothing is appended).
  In every other case (simple mode, no log in the response, a failed request) the log
  stays empty.
\<close>

theorem workflow_log_replaced:
  assumes "trim (input s) \<noteq> []" and "\<not> isProcessing s"
  shows "workflowLog (sendMessage_begin s) = []
       \<and> workflowLog (sendMessage_pending s) = []
       \<and> workflowLog (fst (sendMessage s r))
           = (case r of
                AskFailed detail \<Rightarrow> []
              | AskOk d \<Rightarrow>
                  (case workflow_log d of
                     None \<Rightarrow> []
                   | Some lg \<Rightarrow> if useAgents s then lg else []))"
  using assms by (auto simp: handler_defs Let_def split: option.splits ask_result.splits)

theorem workflow_log_replaced_witness:
  "trim (input logged_state) \<noteq> [] \<and> \<not> isProcessing logged_state
   \<and> workflowLog logged_state = [''Research Agent: 2 chunks'']
   \<and> workflowLog (sendMessage_pending logged_state) = []
   \<and> workflowLog (fst (sendMessage logged_state (AskOk reply_a))) = [''Research Agent: 5 chunks'']
   \<and> workflowLog (fst (sendMessage logged_state (AskOk reply_b))) = []"
proof -
  have a: "trim (input logged_state) \<noteq> []" and b: "\<not> isProcessing logged_state"
    by (simp_all add: logged_state_def ready_state_def initial_state_def trim_question)
  have c: "workflowLog logged_state = [''Research Agent: 2 chunks'']"
    and d: "useAgents logged_state"
    by (simp_all add: logged_state_def ready_state_def initial_state_def)
  from workflow_log_replaced [OF a b, of "AskOk reply_a"]
       workflow_log_replaced [OF a b, of "AskOk reply_b"] a b c d
  show ?thesis by (simp add: reply_a_def reply_b_def)
qed

text \<open>
  C10. A send that passes its guard sets the input field to the empty string before the
  request is issued, and the field is still empty when the handler has finished, whatever
  the outcome; a failed request does not put the text back. The text is the content of the
  user message that was appended to the transcript.
\<close>

theorem sendMessage_clears_input:
  assumes "trim (input s) \<noteq> []" and "\<not> isProcessing s"
  shows "input (sendMessage_begin s) = []
       \<and> input (sendMessage_pending s) = []
       \<and> fst (sendMessage s r) = sendMessage_settle s r (sendMessage_pending s)
       \<and> input (fst (sendMessage s r)) = []
       \<and> input (fst (sendMessage s (AskFailed detail))) = []
       \<and> messages (sendMessage_pending s) = messages s @ [\<lparr>role = User, content = input s\<rparr>]
       \<and> messages (fst (sendMessage s (AskFailed detail)))
           = messages s @ [\<lparr>role = User, content = input s\<rparr>,
                           \<lparr>role = Assistant, content = errorMsg detail\<rparr>]"
  using assms by (auto simp: handler_defs Let_def split: option.splits ask_result.splits)

theorem sendMessage_clears_input_witness:
  "trim (input ready_state) \<noteq> [] \<and> \<not> isProcessing ready_state
   \<and> input ready_state = ''what is new?''
   \<and> input (sendMessage_pending ready_state) = []
   \<and> input (fst (sendMessage ready_state (AskFailed None))) = []"
proof -
  have a: "trim (input ready_state) \<noteq> []" and b: "\<not> isProcessing ready_state"
    using ready_accepts by simp_all
  have c: "input ready_state = ''what is new?''"
    by (simp add: ready_state_def)
  from sendMessage_clears_input [OF a b, of "AskFailed None" None] a b c
  show ?thesis by auto
qed

subsection \<open>Document Registry\<close>

text \<open>
  C7 as stated does not hold: the handler never looks at the document list, so toggling an
  id that no listed document has puts that id into the selection.
\<close>

theorem toggle_unknown_counterexample:
  "''ghost'' \<notin> registry_ids ready_state
   \<and> selectedDocIds (toggleDocSelection ''ghost'' ready_state) = [''d1'', ''d2'', ''ghost'']
   \<and> toggleDocSelection ''ghost'' ready_state \<noteq> ready_state"
proof -
  have a: "''ghost'' \<notin> registry_ids ready_state"
    by (simp add: registry_ids_def ready_state_def doc_a_def doc_b_def)
  have b: "selectedDocIds (toggleDocSelection ''ghost'' ready_state) = [''d1'', ''d2'', ''ghost'']"
    by (simp add: toggleDocSelection_def ready_state_def)
  have c: "selectedDocIds ready_state = [''d1'', ''d2'']"
    by (simp add: ready_state_def)
  from b c have "toggleDocSelection ''ghost'' ready_state \<noteq> ready_state"
    by auto
  with a b show ?thesis by simp
qed

text \<open>
  C7, amended. \<open>toggle(id)\<close> flips the membership of \<open>id\<close> in the selection whether or not
  a listed document has that id: the id is selected afterwards exactly when it was not
  before, the membership of every other id is as before, and no other part of the state
  changes.
\<close>

theorem toggle_flips_membership:
  "(docId \<in> set (selectedDocIds (toggleDocSelection docId s))) = (docId \<notin> set (selectedDocIds s))
   \<and> set (selectedDocIds (toggleDocSelection docId s)) - {docId} = set (selectedDocIds s) - {docId}
   \<and> toggleDocSelection docId s = s\<lparr>selectedDocIds := selectedDocIds (toggleDocSelection docId s)\<rparr>"
  by (auto simp: toggleDocSelection_def)

text \<open>
  What a refresh does to the selection: it writes the ids of the new list when that list is
  not empty and the selection it captured is empty, and leaves the selection of the moment
  alone otherwise.
\<close>

lemma fetchDocuments_settle_selection:
  "selectedDocIds (fetchDocuments_settle c r s) =
     (case r of
        GetFailed \<Rightarrow> selectedDocIds s
      | GetOk body \<Rightarrow>
          (case body of
             None \<Rightarrow> selectedDocIds s
           | Some ds \<Rightarrow> if ds \<noteq> [] \<and> selectedDocIds c = [] then map doc_id ds
                        else selectedDocIds s))"
  by (simp add: fetchDocuments_settle_def Let_def split: get_result.splits option.splits)

text \<open>
  C8 is what the test on line 63 is there for, and the code misses it when the selection
  changes while the list is awaited. An upload is started with two documents listed and
  none selected; while the upload request is pending the first document is ticked; the
  list then arrives with three documents. The refresh tests the selection that the handler
  captured when it started, which is empty, and not the selection of the moment, which is
  \<open>[d1]\<close>: it replaces \<open>[d1]\<close> by all three ids, and the upload appends the third again.
\<close>

theorem refresh_overrides_ticked_selection:
  "selectedDocIds emptied_state = []
   \<and> selectedDocIds ticked_state = [''d1'']
   \<and> selectedDocIds (fetchDocuments_settle emptied_state (GetOk (Some [doc_a, doc_b, doc_c]))
        ticked_state) = [''d1'', ''d2'', ''d3'']
   \<and> selectedDocIds (handleFileUpload_refreshed emptied_state (Some ''d3'')
        (GetOk (Some [doc_a, doc_b, doc_c])) ticked_state) = [''d1'', ''d2'', ''d3'', ''d3'']"
proof -
  have a: "selectedDocIds emptied_state = []"
    by (simp add: emptied_state_def initial_state_def)
  have b: "selectedDocIds ticked_state = [''d1'']"
    by (simp add: ticked_state_def upload_phase_defs toggleDocSelection_def a)
  have c: "selectedDocIds (fetchDocuments_settle emptied_state
        (GetOk (Some [doc_a, doc_b, doc_c])) ticked_state) = [''d1'', ''d2'', ''d3'']"
    by (simp add: fetchDocuments_settle_selection a doc_a_def doc_b_def doc_c_def)
  have d: "selectedDocIds (handleFileUpload_refreshed emptied_state (Some ''d3'')
        (GetOk (Some [doc_a, doc_b, doc_c])) ticked_state) = [''d1'', ''d2'', ''d3'', ''d3'']"
    by (simp add: handleFileUpload_refreshed_def Let_def c)
  from a b c d show ?thesis by simp
qed

text \<open>
  C1 as stated does not hold: no handler removes an id from the selection when the document
  list changes. A refresh that finds \<open>d1\<close> selected and returns a list without \<open>d1\<close>
  leaves \<open>d1\<close> selected, and the selection is then no subset of the registry.
\<close>

theorem refresh_prunes_counterexample:
  "selection_valid stale_state
   \<and> ''d1'' \<in> set (selectedDocIds stale_state)
   \<and> ''d1'' \<notin> set (map doc_id [doc_b])
   \<and> ''d1'' \<in> set (selectedDocIds (fst (fetchDocuments stale_state (GetOk (Some [doc_b])))))
   \<and> \<not> selection_valid (fst (fetchDocuments stale_state (GetOk (Some [doc_b]))))"
  by (simp add: selection_valid_def registry_ids_def stale_state_def initial_state_def
        fetchDocuments_def fetchDocuments_settle_def doc_a_def doc_b_def)

text \<open>
  C1, amended. \<open>selectAll\<close> and \<open>selectNone\<close> always give a selection inside the
  registry. A toggle of an id of the registry, a failed refresh and every phase of a failed
  upload keep the selection inside the registry. For a refresh, and for the refresh and
  the append that end a successful upload, during which no other event changed the
  selection (the selection the handler captured is the selection of the moment): a
  successful refresh that finds the selection empty gives a selection inside the new
  registry; a refresh that finds the selection not empty leaves it as it is, pruning
  nothing, so that afterwards the selection is inside the new registry exactly when the
  new list has every selected id; the end of a successful upload gives a selection inside
  the registry when the new list has the ids selected before and the id the upload
  returned. Nothing is said of a refresh during which the selection changed.
\<close>

theorem selection_within_registry:
  "selection_valid (selectAllDocs s)
   \<and> selection_valid (deselectAllDocs s)
   \<and> (selection_valid s \<and> docId \<in> registry_ids s \<longrightarrow> selection_valid (toggleDocSelection docId s))
   \<and> (selection_valid s \<longrightarrow>
        selection_valid (fetchDocuments_settle c GetFailed s)
        \<and> selection_valid (handleFileUpload_begin s)
        \<and> selection_valid (handleFileUpload_posted ur s))
   \<and> (selectedDocIds ce = selectedDocIds e \<and> selectedDocIds e = [] \<longrightarrow>
        selection_valid (fetchDocuments_settle ce (GetOk body) e)
        \<and> documents (fetchDocuments_settle ce (GetOk body) e)
            = (case body of None \<Rightarrow> [] | Some ds \<Rightarrow> ds)
        \<and> set (selectedDocIds (fetchDocuments_settle ce (GetOk body) e))
            = registry_ids (fetchDocuments_settle ce (GetOk body) e))
   \<and> (selectedDocIds ct = selectedDocIds t \<and> selectedDocIds t \<noteq> [] \<longrightarrow>
        selectedDocIds (fetchDocuments_settle ct r t) = selectedDocIds t
        \<and> selection_valid (fetchDocuments_settle ct (GetOk (Some ds)) t)
            = (set (selectedDocIds t) \<subseteq> set (map doc_id ds)))
   \<and> (selectedDocIds cu = selectedDocIds u \<and> f \<noteq> []
        \<and> set (selectedDocIds u) \<subseteq> set (map doc_id dss) \<and> f \<in> set (map doc_id dss) \<longrightarrow>
        selection_valid (handleFileUpload_refreshed cu (Some f) (GetOk (Some dss)) u)
        \<and> f \<in> set (selectedDocIds (handleFileUpload_refreshed cu (Some f) (GetOk (Some dss)) u))
        \<and> set (selectedDocIds u)
            \<subseteq> set (selectedDocIds (handleFileUpload_refreshed cu (Some f) (GetOk (Some dss)) u)))"
  by (auto simp: selection_valid_def registry_ids_def registry_defs upload_phase_defs Let_def
           split: get_result.splits option.splits upload_result.splits)

theorem selection_within_registry_witness:
  "selection_valid ready_state \<and> ''d1'' \<in> registry_ids ready_state
   \<and> selection_valid (toggleDocSelection ''d1'' ready_state)
   \<and> selection_valid (fetchDocuments_settle initial_state GetFailed ready_state)
   \<and> selection_valid (handleFileUpload_posted UploadFailed (handleFileUpload_begin ready_state))
   \<and> selectedDocIds initial_state = selectedDocIds (handleFileUpload_begin initial_state)
   \<and> selectedDocIds (handleFileUpload_begin initial_state) = []
   \<and> selection_valid (fetchDocuments_settle initial_state (GetOk (Some [doc_a, doc_b]))
        (handleFileUpload_begin initial_state))
   \<and> selectedDocIds stale_state = selectedDocIds (handleFileUpload_begin stale_state)
   \<and> selectedDocIds (handleFileUpload_begin stale_state) \<noteq> []
   \<and> selectedDocIds (fetchDocuments_settle stale_state (GetOk (Some [doc_b]))
        (handleFileUpload_begin stale_state)) = [''d1'']
   \<and> \<not> selection_valid (fetchDocuments_settle stale_state (GetOk (Some [doc_b]))
        (handleFileUpload_begin stale_state))
   \<and> ''d2'' \<noteq> []
   \<and> set (selectedDocIds (handleFileUpload_begin stale_state)) \<subseteq> set (map doc_id [doc_a, doc_b])
   \<and> ''d2'' \<in> set (map doc_id [doc_a, doc_b])
   \<and> selection_valid (handleFileUpload_refreshed stale_state (Some ''d2'')
        (GetOk (Some [doc_a, doc_b])) (handleFileUpload_begin stale_state))"
proof -
  have a: "selection_valid ready_state" "''d1'' \<in> registry_ids ready_state"
    by (simp_all add: selection_valid_def registry_ids_def ready_state_def doc_a_def doc_b_def)
  have b: "selectedDocIds initial_state = []" "selectedDocIds stale_state = [''d1'']"
      "selectedDocIds (handleFileUpload_begin initial_state) = []"
      "selectedDocIds (handleFileUpload_begin stale_state) = [''d1'']"
    by (simp_all add: initial_state_def stale_state_def handleFileUpload_begin_def)
  have c: "map doc_id [doc_a, doc_b] = [''d1'', ''d2'']" "map doc_id [doc_b] = [''d2'']"
    by (simp_all add: doc_a_def doc_b_def)
  have d: "selection_valid (handleFileUpload_begin ready_state)"
    using a(1) by (simp add: selection_valid_def registry_ids_def handleFileUpload_begin_def)
  note th = selection_within_registry [where s = ready_state and docId = "''d1''"
      and c = initial_state and ur = UploadFailed
      and ce = initial_state and e = "handleFileUpload_begin initial_state"
      and body = "Some [doc_a, doc_b]"
      and ct = stale_state and t = "handleFileUpload_begin stale_state"
      and r = "GetOk (Some [doc_b])" and ds = "[doc_b]"
      and cu = stale_state and u = "handleFileUpload_begin stale_state"
      and f = "''d2''" and dss = "[doc_a, doc_b]"]
  note th2 = selection_within_registry [where s = "handleFileUpload_begin ready_state"
      and ur = UploadFailed]
  from th th2 a b c d show ?thesis by simp
qed

subsection \<open>Upload Coordinator\<close>



subsection \<open>Session Tracker\<close>

lemma step_keeps_session:
  "sessionId s \<noteq> [] \<Longrightarrow> e \<noteq> NewConversation \<Longrightarrow> sessionId (step s e) = sessionId s"
  by (cases e)
     (auto simp: registry_defs handler_defs Let_def
           split: get_result.splits option.splits upload_result.splits ask_result.splits)

lemma run_keeps_session:
  "sessionId s \<noteq> [] \<Longrightarrow> NewConversation \<notin> set es \<Longrightarrow> sessionId (run s es) = sessionId s"
proof (induction es arbitrary: s)
  case Nil
  then show ?case by simp
next
  case (Cons e es)
  from Cons.prems have e: "e \<noteq> NewConversation" and es: "NewConversation \<notin> set es"
    by auto
  from Cons.prems(1) e have keep: "sessionId (step s e) = sessionId s"
    by (rule step_keeps_session)
  with Cons.prems(1) have "sessionId (step s e) \<noteq> []" by simp
  from Cons.IH [OF this es] keep show ?case by simp
qed

lemma first_capture:
  assumes "sessionId t = []" "trim (input t) \<noteq> []" "\<not> isProcessing t"
    and "session_id d = Some a" "a \<noteq> []"
  shows "sessionId (step t (Send (AskOk d))) = a"
  using assms by (simp add: handler_defs Let_def split: option.splits)

text \<open>
  C3. Once the session id is not empty, no sequence of events without the reset changes
  it, whatever the responses carry. So when a first accepted send receives the id \<open>a\<close>,
  the id is \<open>a\<close> after any later events without the reset, among them later sends whose
  responses carry other ids. The capture itself leaves an id that is set alone. The reset
  sets the id to the empty string.
\<close>

theorem session_token_set_once:
  "(sessionId s \<noteq> [] \<and> NewConversation \<notin> set es \<longrightarrow> sessionId (run s es) = sessionId s)
   \<and> (sessionId t = [] \<and> trim (input t) \<noteq> [] \<and> \<not> isProcessing t
        \<and> session_id d = Some a \<and> a \<noteq> [] \<and> NewConversation \<notin> set es2
      \<longrightarrow> sessionId (run t (Send (AskOk d) # es2)) = a)
   \<and> (sessionId c \<noteq> [] \<longrightarrow> sessionId (capture c tok c) = sessionId c)
   \<and> sessionId (startNewConversation u) = []
   \<and> sessionId (step u NewConversation) = []"
proof -
  have one: "sessionId s \<noteq> [] \<and> NewConversation \<notin> set es \<longrightarrow> sessionId (run s es) = sessionId s"
    by (simp add: run_keeps_session)
  have two: "sessionId (run t (Send (AskOk d) # es2)) = a"
    if h: "sessionId t = [] \<and> trim (input t) \<noteq> [] \<and> \<not> isProcessing t
        \<and> session_id d = Some a \<and> a \<noteq> [] \<and> NewConversation \<notin> set es2"
  proof -
    from h first_capture [of t d a] have f: "sessionId (step t (Send (AskOk d))) = a"
      by blast
    with h have "sessionId (step t (Send (AskOk d))) \<noteq> []" by simp
    from run_keeps_session [OF this] h f show ?thesis by simp
  qed
  have three: "sessionId c \<noteq> [] \<longrightarrow> sessionId (capture c tok c) = sessionId c"
    by (simp add: capture_def split: option.splits)
  have four: "sessionId (startNewConversation u) = []"
    by (simp add: startNewConversation_def)
  from one two three four show ?thesis by simp
qed

theorem session_token_set_once_witness:
  "sessionId (ready_state\<lparr>sessionId := ''sess-A''\<rparr>) \<noteq> []
   \<and> NewConversation \<notin> set [Send (AskOk reply_b)]
   \<and> sessionId (run (ready_state\<lparr>sessionId := ''sess-A''\<rparr>) [Send (AskOk reply_b)]) = ''sess-A''
   \<and> sessionId ready_state = [] \<and> trim (input ready_state) \<noteq> [] \<and> \<not> isProcessing ready_state
   \<and> session_id reply_a = Some ''sess-A'' \<and> session_id reply_b = Some ''sess-B''
   \<and> NewConversation \<notin> set [SetInput ''and now?'', Send (AskOk reply_b)]
   \<and> sessionId (run ready_state [Send (AskOk reply_a), SetInput ''and now?'', Send (AskOk reply_b)])
       = ''sess-A''
   \<and> map content (messages (run ready_state
         [Send (AskOk reply_a), SetInput ''and now?'', Send (AskOk reply_b)]))
       = [''what is new?'', ''Nothing.'', ''and now?'', ''Still nothing.'']
   \<and> sessionId (capture (ready_state\<lparr>sessionId := ''sess-A''\<rparr>) (Some ''sess-B'')
         (ready_state\<lparr>sessionId := ''sess-A''\<rparr>)) = ''sess-A''
   \<and> sessionId (startNewConversation (ready_state\<lparr>sessionId := ''sess-A''\<rparr>)) = []"
proof -
  have a: "sessionId ready_state = []" "session_id reply_a = Some ''sess-A''"
      "session_id reply_b = Some ''sess-B''"
    by (simp_all add: ready_state_def initial_state_def reply_a_def reply_b_def)
  have b: "map content (messages (run ready_state
         [Send (AskOk reply_a), SetInput ''and now?'', Send (AskOk reply_b)]))
       = [''what is new?'', ''Nothing.'', ''and now?'', ''Still nothing.'']"
    by (simp add: handler_defs ready_state_def initial_state_def reply_a_def reply_b_def
          trim_def isWhiteSpace_def)
  note th = session_token_set_once [of "ready_state\<lparr>sessionId := ''sess-A''\<rparr>" "[Send (AskOk reply_b)]"
      ready_state reply_a "''sess-A''" "[SetInput ''and now?'', Send (AskOk reply_b)]"
      "ready_state\<lparr>sessionId := ''sess-A''\<rparr>" "Some ''sess-B''"
      "ready_state\<lparr>sessionId := ''sess-A''\<rparr>"]
  from th a b ready_accepts show ?thesis by simp
qed

end
